theory Spec2Isabelle
  imports Complex_Main "HOL-Library.Multiset" "HOL-Library.AList"
    "HOL-Library.List_Lexorder" "HOL-Library.Char_ord"
begin

section \<open>Conventions of the embedding\<close>

text \<open>
  The scripts of the repository are embedded function by function. What the scripts take
  from the file system and from third-party libraries is made explicit:
  \<^item> a folder is the list of its files in the order \<open>os.listdir\<close> gives them; the folder
    itself exists;
  \<^item> Python floats are modelled as real numbers (exact arithmetic); a float that can be
    NaN is an \<open>fval\<close>;
  \<^item> Python's \<open>float()\<close> and pandas' numeric coercion are parameters of type \<open>parser\<close>
    (\<open>None\<close>: the text does not parse), so every theorem holds for any parser;
  \<^item> an exception that leaves a function is a value \<open>Inl e\<close> of a sum type.
\<close>

type_synonym parser = "string \<Rightarrow> real option"

datatype fval = Num real | NaN

datatype error = ValueError string | KeyError string | KeyErrorNum real

subsection \<open>String helpers\<close>

text \<open>\<open>s.endswith(suf)\<close>.\<close>

definition endswith :: "string \<Rightarrow> string \<Rightarrow> bool" where
  "endswith s suf \<longleftrightarrow> length suf \<le> length s \<and> drop (length s - length suf) s = suf"

text \<open>\<open>s.split(sep)[0]\<close> for a non-empty \<open>sep\<close>: the text before the first occurrence
  of \<open>sep\<close>, all of \<open>s\<close> when there is none.\<close>

fun split_head :: "string \<Rightarrow> string \<Rightarrow> string" where
  "split_head sep [] = []"
| "split_head sep (c # cs) =
     (if take (length sep) (c # cs) = sep then [] else c # split_head sep cs)"

section \<open>cal\_kendall.py\<close>

subsection \<open>Data\<close>

text \<open>
  A headerless score file as \<open>pd.read_csv(path, header=None, names=["rir", "score", "count"])\<close>
  sees it: its name and, when the read succeeds, its rows of three cells.
\<close>

record csv_row =
  rir :: string
  score :: string
  count_col :: string

text \<open>A file of a folder: its name and what reading it gives (\<open>None\<close>: the read raises).\<close>

record 'c dir_entry =
  fname :: string
  content :: "'c option"

type_synonym score_file = "csv_row list dir_entry"

type_synonym folder = "score_file list"

text \<open>A row of the table \<open>load_scores\<close> builds: columns \<open>t60\<close>, \<open>rir\<close>, \<open>score\<close>.\<close>

type_synonym score_row = "real \<times> string \<times> real"

text \<open>
  The result of \<open>load_scores\<close>: \<open>pd.DataFrame()\<close>, which has no columns at all, or a frame
  with the three columns and the given rows.
\<close>

datatype score_frame = EmptyDataFrame | Frame "score_row list"

fun frame_rows :: "score_frame \<Rightarrow> score_row list" where
  "frame_rows EmptyDataFrame = []"
| "frame_rows (Frame rs) = rs"

subsection \<open>load\_scores\<close>

text \<open>\<open>t60_range and not (t60_range[0] <= t60 <= t60_range[1])\<close>.\<close>

definition outside_range :: "(real \<times> real) option \<Rightarrow> real \<Rightarrow> bool" where
  "outside_range t60_range t60 =
     (case t60_range of None \<Rightarrow> False | Some (lo, hi) \<Rightarrow> \<not> (lo \<le> t60 \<and> t60 \<le> hi))"

text \<open>
  \<open>pd.to_numeric(df["score"], errors="coerce")\<close> followed by \<open>dropna(subset=["score"])\<close> and
  the selection of the columns \<open>t60\<close>, \<open>rir\<close>, \<open>score\<close>.
\<close>

fun coerce_rows :: "parser \<Rightarrow> real \<Rightarrow> csv_row list \<Rightarrow> score_row list" where
  "coerce_rows to_numeric t60 [] = []"
| "coerce_rows to_numeric t60 (r # rs) =
     (case to_numeric (score r) of
        None \<Rightarrow> coerce_rows to_numeric t60 rs
      | Some s \<Rightarrow> (t60, rir r, s) # coerce_rows to_numeric t60 rs)"

text \<open>
  The body of the \<open>try\<close> for one file. \<open>None\<close>: nothing is appended to \<open>scores\<close> (the
  name does not parse, the file is outside the range, or the read raised and the
  \<open>except\<close> clause logged it).
\<close>

definition load_file ::
  "parser \<Rightarrow> parser \<Rightarrow> (real \<times> real) option \<Rightarrow> score_file \<Rightarrow> score_row list option" where
  "load_file pyfloat to_numeric t60_range f =
     (case pyfloat (split_head ''_mean_scores'' (fname f)) of
        None \<Rightarrow> None
      | Some t60 \<Rightarrow>
          if outside_range t60_range t60 then None
          else (case content f of
                  None \<Rightarrow> None
                | Some df \<Rightarrow> Some (coerce_rows to_numeric t60 df)))"

text \<open>The loop over \<open>csv_files\<close>, with the list \<open>scores\<close> it appends to.\<close>

fun load_loop ::
  "parser \<Rightarrow> parser \<Rightarrow> (real \<times> real) option \<Rightarrow> score_file list \<Rightarrow>
   score_row list list \<Rightarrow> score_row list list" where
  "load_loop pyfloat to_numeric t60_range [] scores = scores"
| "load_loop pyfloat to_numeric t60_range (f # fs) scores =
     (case load_file pyfloat to_numeric t60_range f of
        None \<Rightarrow> load_loop pyfloat to_numeric t60_range fs scores
      | Some df \<Rightarrow> load_loop pyfloat to_numeric t60_range fs (scores @ [df]))"

definition load_scores ::
  "parser \<Rightarrow> parser \<Rightarrow> folder \<Rightarrow> (real \<times> real) option \<Rightarrow> score_frame" where
  "load_scores pyfloat to_numeric folder t60_range =
     (let csv_files = filter (\<lambda>f. endswith (fname f) ''_mean_scores.csv'') folder;
          scores = load_loop pyfloat to_numeric t60_range csv_files []
      in if scores \<noteq> [] then Frame (concat scores) else EmptyDataFrame)"

subsection \<open>What the specification says load\_scores returns\<close>

text \<open>
  A folder is well formed when every file is named \<open><t60>_mean_scores.csv\<close> with a
  parseable \<open>t60\<close> and can be read.
\<close>

definition well_formed :: "parser \<Rightarrow> folder \<Rightarrow> bool" where
  "well_formed pyfloat folder \<longleftrightarrow>
     list_all (\<lambda>f. endswith (fname f) ''_mean_scores.csv''
                 \<and> pyfloat (split_head ''_mean_scores'' (fname f)) \<noteq> None
                 \<and> content f \<noteq> None) folder"

definition file_t60 :: "parser \<Rightarrow> score_file \<Rightarrow> real" where
  "file_t60 pyfloat f = the (pyfloat (split_head ''_mean_scores'' (fname f)))"

definition in_range :: "(real \<times> real) option \<Rightarrow> real \<Rightarrow> bool" where
  "in_range t60_range t60 =
     (case t60_range of None \<Rightarrow> True | Some (lo, hi) \<Rightarrow> lo \<le> t60 \<and> t60 \<le> hi)"

text \<open>
  The rows the specification asks for: of every file whose t60 lies in the range, the
  rows whose score coerces to a number, each with the file's t60.
\<close>

definition spec_rows ::
  "parser \<Rightarrow> parser \<Rightarrow> folder \<Rightarrow> (real \<times> real) option \<Rightarrow> score_row list" where
  "spec_rows pyfloat to_numeric folder t60_range =
     concat (map (\<lambda>f. map (\<lambda>r. (file_t60 pyfloat f, rir r, the (to_numeric (score r))))
                         (filter (\<lambda>r. to_numeric (score r) \<noteq> None) (the (content f))))
                 (filter (\<lambda>f. in_range t60_range (file_t60 pyfloat f)) folder))"

definition total_rows :: "folder \<Rightarrow> nat" where
  "total_rows folder =
     sum_list (map (\<lambda>f. case content f of None \<Rightarrow> 0 | Some df \<Rightarrow> length df) folder)"

subsection \<open>pd.merge on t60 and rir\<close>

text \<open>A row of the merged table: \<open>t60\<close>, \<open>rir\<close>, \<open>score_1\<close>, \<open>score_2\<close>.\<close>

type_synonym merged_row = "real \<times> string \<times> real \<times> real"

definition row_key :: "score_row \<Rightarrow> real \<times> string" where
  "row_key r = (fst r, fst (snd r))"

definition score_1 :: "merged_row \<Rightarrow> real" where
  "score_1 m = fst (snd (snd m))"

definition score_2 :: "merged_row \<Rightarrow> real" where
  "score_2 m = snd (snd (snd m))"

text \<open>
  The inner join on the key \<open>(t60, rir)\<close>: every pair of a left row and a right row with
  the same key gives one row, in the order of the left rows.
\<close>

definition inner_join :: "score_row list \<Rightarrow> score_row list \<Rightarrow> merged_row list" where
  "inner_join left right =
     concat (map (\<lambda>a. map (\<lambda>b. (fst a, fst (snd a), snd (snd a), snd (snd b)))
                         (filter (\<lambda>b. row_key b = row_key a) right)) left)"

text \<open>
  \<open>pd.merge(scores1, scores2, on=["t60", "rir"], suffixes=("_1", "_2"))\<close>. A frame without
  the key columns, which is what \<open>pd.DataFrame()\<close> is, makes pandas raise \<open>KeyError\<close>.
\<close>

fun merge :: "score_frame \<Rightarrow> score_frame \<Rightarrow> error + merged_row list" where
  "merge (Frame l) (Frame r) = Inr (inner_join l r)"
| "merge EmptyDataFrame _ = Inl (KeyError ''t60'')"
| "merge _ EmptyDataFrame = Inl (KeyError ''t60'')"

subsection \<open>The statistics\<close>

text \<open>
  The statistics of scipy and numpy follow their documented definitions, in exact
  arithmetic. The p-value of Kendall's tau (an exact permutation count or a normal
  approximation) is not modelled: it is a parameter \<open>pvalue\<close> of the two vectors.
\<close>

definition np_mean :: "real list \<Rightarrow> real" where
  "np_mean xs = sum_list xs / real (length xs)"

definition no_common_pairs :: string where
  "no_common_pairs =
     ''No common T60 and RIR pairs found between the two folders within the specified range.''"

definition length_below_two :: string where
  "length_below_two = ''x and y must have length at least 2.''"

text \<open>
  \<open>scipy.stats.pearsonr\<close>: fewer than two points raise \<open>ValueError\<close> (the wording of
  its message varies between versions of scipy); a constant vector gives NaN (with a
  warning); otherwise the coefficient, clipped to \<open>[-1, 1]\<close>.
\<close>

definition pearsonr :: "real list \<Rightarrow> real list \<Rightarrow> error + fval" where
  "pearsonr x y =
     (if length x \<noteq> length y then Inl (ValueError ''x and y must have the same length.'')
      else if length x < 2 then Inl (ValueError length_below_two)
      else if list_all (\<lambda>v. v = hd x) x \<or> list_all (\<lambda>v. v = hd y) y then Inr NaN
      else
        let xm = map (\<lambda>v. v - np_mean x) x;
            ym = map (\<lambda>v. v - np_mean y) y;
            normxm = sqrt (sum_list (map (\<lambda>v. v * v) xm));
            normym = sqrt (sum_list (map (\<lambda>v. v * v) ym));
            r = sum_list (map (\<lambda>(a, b). a * b) (zip xm ym)) / (normxm * normym)
        in Inr (Num (max (min r 1) (- 1))))"

text \<open>The number of pairs of positions \<open>i < j\<close> whose elements are related by \<open>P\<close>.\<close>

fun count_pairs :: "('a \<Rightarrow> 'a \<Rightarrow> bool) \<Rightarrow> 'a list \<Rightarrow> nat" where
  "count_pairs P [] = 0"
| "count_pairs P (p # ps) = length (filter (P p) ps) + count_pairs P ps"

definition discordant :: "real \<times> real \<Rightarrow> real \<times> real \<Rightarrow> bool" where
  "discordant p q \<longleftrightarrow> (fst p < fst q \<and> snd q < snd p) \<or> (fst q < fst p \<and> snd p < snd q)"

text \<open>
  \<open>scipy.stats.kendalltau(x, y, variant="c")\<close>: \<open>dis\<close> counts the discordant pairs,
  \<open>xtie\<close>, \<open>ytie\<close> and \<open>ntie\<close> the pairs tied in \<open>x\<close>, in \<open>y\<close> and in both; when all
  pairs are tied in \<open>x\<close> or in \<open>y\<close> both results are NaN.
\<close>

definition kendalltau ::
  "(real list \<Rightarrow> real list \<Rightarrow> fval) \<Rightarrow> real list \<Rightarrow> real list \<Rightarrow> fval \<times> fval" where
  "kendalltau pvalue x y =
     (let ps = zip x y;
          size = length x;
          dis = count_pairs discordant ps;
          ntie = count_pairs (\<lambda>p q. p = q) ps;
          xtie = count_pairs (\<lambda>p q. fst p = fst q) ps;
          ytie = count_pairs (\<lambda>p q. snd p = snd q) ps;
          tot = (size * (size - 1)) div 2
      in if xtie = tot \<or> ytie = tot then (NaN, NaN)
         else
           let con_minus_dis = int tot - int xtie - int ytie + int ntie - 2 * int dis;
               minclasses = min (length (remdups x)) (length (remdups y));
               tau = 2 * real_of_int con_minus_dis
                       / (real (size * size) * real (minclasses - 1) / real minclasses)
           in (Num (min 1 (max (- 1) tau)), pvalue x y))"

subsection \<open>calculate\_folders\_metrics\<close>

record metric_summary =
  pearson :: fval
  kendall :: fval
  kendall_p_value :: fval
  rmse :: real

definition calculate_folders_metrics ::
  "parser \<Rightarrow> parser \<Rightarrow> (real list \<Rightarrow> real list \<Rightarrow> fval) \<Rightarrow> folder \<Rightarrow> folder \<Rightarrow>
   (real \<times> real) option \<Rightarrow> error + metric_summary" where
  "calculate_folders_metrics pyfloat to_numeric pvalue folder1 folder2 t60_range =
     (let scores1 = load_scores pyfloat to_numeric folder1 t60_range;
          scores2 = load_scores pyfloat to_numeric folder2 t60_range
      in case merge scores1 scores2 of
           Inl e \<Rightarrow> Inl e
         | Inr merged_df \<Rightarrow>
             if merged_df = [] then Inl (ValueError no_common_pairs)
             else
               let x = map score_1 merged_df;
                   y = map score_2 merged_df
               in case pearsonr x y of
                    Inl e \<Rightarrow> Inl e
                  | Inr pearson_corr \<Rightarrow>
                      let (kendall_corr, kendall_p) = kendalltau pvalue x y
                      in Inr \<lparr>pearson = pearson_corr, kendall = kendall_corr,
                               kendall_p_value = kendall_p,
                               rmse = sqrt (np_mean (map (\<lambda>(a, b). (a - b) * (a - b)) (zip x y)))\<rparr>)"




section \<open>variance\_test.py\<close>

text \<open>
  A score file with a header row as \<open>pd.read_csv(path)\<close> sees it: the columns by name.
  \<open>scipy.stats.levene\<close> is a parameter; \<open>None\<close> is an exception it raises. The lines the
  script prints are not modelled.
\<close>

type_synonym 'v header_file = "(string \<times> 'v list) list dir_entry"

type_synonym 'v t60_data = "(real \<times> 'v list) list"

type_synonym 'v levene_test = "'v list \<Rightarrow> 'v list \<Rightarrow> (fval \<times> fval) option"

text \<open>A row of the results: \<open>T60\<close>, \<open>Levene_Stat\<close>, \<open>P_Value\<close>.\<close>

type_synonym levene_row = "real \<times> fval \<times> fval"

subsection \<open>get\_t60\_data\<close>

text \<open>
  The dictionary \<open>t60_data\<close> is an association list in insertion order; a later file
  with the same T60 replaces the scores of an earlier one. A name that does not parse,
  a failed read and a missing column \<open>mean_score\<close> are caught and skip the file.
\<close>

fun get_t60_data_loop ::
  "parser \<Rightarrow> 'v header_file list \<Rightarrow> 'v t60_data \<Rightarrow> 'v t60_data" where
  "get_t60_data_loop pyfloat [] t60_data = t60_data"
| "get_t60_data_loop pyfloat (f # fs) t60_data =
     (if endswith (fname f) ''_mean_scores.csv'' then
        (case pyfloat (split_head ''_mean_scores'' (fname f)) of
           None \<Rightarrow> get_t60_data_loop pyfloat fs t60_data
         | Some t60 \<Rightarrow>
             (case content f of
                None \<Rightarrow> get_t60_data_loop pyfloat fs t60_data
              | Some df \<Rightarrow>
                  (case map_of df ''mean_score'' of
                     None \<Rightarrow> get_t60_data_loop pyfloat fs t60_data
                   | Some scores \<Rightarrow>
                       get_t60_data_loop pyfloat fs (AList.update t60 scores t60_data))))
      else get_t60_data_loop pyfloat fs t60_data)"

definition get_t60_data :: "parser \<Rightarrow> 'v header_file list \<Rightarrow> 'v t60_data" where
  "get_t60_data pyfloat folder = get_t60_data_loop pyfloat folder []"

subsection \<open>levene\_test\_between\_folders\<close>

text \<open>
  The loop over \<open>common_t60s\<close>. The two dictionary reads stand before the \<open>try\<close>, so a
  missing key would leave the function; an exception of \<open>levene\<close> is caught and the
  T60 gets no row.
\<close>

fun levene_loop ::
  "'v levene_test \<Rightarrow> 'v t60_data \<Rightarrow> 'v t60_data \<Rightarrow> real list \<Rightarrow> levene_row list \<Rightarrow>
   error + levene_row list" where
  "levene_loop levene folder1_data folder2_data [] results = Inr results"
| "levene_loop levene folder1_data folder2_data (t60 # ts) results =
     (case map_of folder1_data t60 of
        None \<Rightarrow> Inl (KeyErrorNum t60)
      | Some scores1 \<Rightarrow>
          (case map_of folder2_data t60 of
             None \<Rightarrow> Inl (KeyErrorNum t60)
           | Some scores2 \<Rightarrow>
               (case levene scores1 scores2 of
                  None \<Rightarrow> levene_loop levene folder1_data folder2_data ts results
                | Some (stat, p_value) \<Rightarrow>
                    levene_loop levene folder1_data folder2_data ts
                      (results @ [(t60, stat, p_value)]))))"

text \<open>\<open>sorted(set(folder1_data.keys()).intersection(folder2_data.keys()))\<close>.\<close>

definition common_t60s :: "'v t60_data \<Rightarrow> 'v t60_data \<Rightarrow> real list" where
  "common_t60s folder1_data folder2_data =
     sorted_list_of_set (set (map fst folder1_data) \<inter> set (map fst folder2_data))"

text \<open>
  The result is the table written to \<open>output_file\<close>. \<open>pd.DataFrame([])\<close> has no column
  \<open>T60\<close>, so \<open>sort_values(by="T60")\<close> raises \<open>KeyError\<close> when \<open>results\<close> is empty, and
  nothing is written.
\<close>

definition levene_test_between_folders ::
  "parser \<Rightarrow> 'v levene_test \<Rightarrow> 'v header_file list \<Rightarrow> 'v header_file list \<Rightarrow>
   error + levene_row list" where
  "levene_test_between_folders pyfloat levene folder1 folder2 =
     (let folder1_data = get_t60_data pyfloat folder1;
          folder2_data = get_t60_data pyfloat folder2
      in case levene_loop levene folder1_data folder2_data
                (common_t60s folder1_data folder2_data) [] of
           Inl e \<Rightarrow> Inl e
         | Inr results \<Rightarrow>
             if results = [] then Inl (KeyError ''T60'')
             else Inr (sort_key fst results))"

section \<open>get\_estoi.py and get\_siib.py\<close>

text \<open>
  The file system and the audio libraries are parameters: \<open>listdir\<close> lists a directory,
  \<open>sf_read\<close> reads a waveform and its sample rate, the scorer is \<open>stoi\<close> or \<open>SIIB\<close>; each
  of the last two gives \<open>Inl msg\<close> when it raises an exception whose text is \<open>msg\<close>.
  Waveforms are one-dimensional. The state of a run is the rows appended to the output
  CSV file so far and the calls of the scorer made so far. The lines printed are not
  modelled.
\<close>

datatype 's entry = Score 's | ErrorText string

record ('s, 'c) run_state =
  csv :: "(string \<times> 's entry) list"
  calls :: "'c list"

type_synonym reader = "string \<Rightarrow> string + (real list \<times> nat)"

type_synonym ('w, 's) scorer = "'w list \<Rightarrow> 'w list \<Rightarrow> nat \<Rightarrow> string + 's"

text \<open>\<open>os.path.join(a, b)\<close> for a relative \<open>b\<close>.\<close>

definition path_join :: "string \<Rightarrow> string \<Rightarrow> string" where
  "path_join a b = a @ ''/'' @ b"

text \<open>\<open>str(n)\<close> for a natural number.\<close>

fun str_nat :: "nat \<Rightarrow> string" where
  "str_nat n =
     (if n < 10 then [''0123456789'' ! n]
      else str_nat (n div 10) @ [''0123456789'' ! (n mod 10)])"

definition mismatch_message :: "nat \<Rightarrow> nat \<Rightarrow> string \<Rightarrow> string" where
  "mismatch_message n_clean n_degraded rir_folder_path =
     ''Mismatch: '' @ str_nat n_clean @ '' clean files vs '' @ str_nat n_degraded
       @ '' degraded files in '' @ rir_folder_path"

definition wav_files :: "(string \<Rightarrow> string list) \<Rightarrow> string \<Rightarrow> string list" where
  "wav_files listdir dir = sort (filter (\<lambda>f. endswith f ''.wav'') (listdir dir))"

text \<open>The clean signal padded with zeros or cut to the length of the degraded one.\<close>

definition align :: "real list \<Rightarrow> real list \<Rightarrow> real list" where
  "align clean_signal degraded_signal =
     (if length clean_signal < length degraded_signal
      then clean_signal @ replicate (length degraded_signal - length clean_signal) 0
      else if length clean_signal > length degraded_signal
      then take (length degraded_signal) clean_signal
      else clean_signal)"

text \<open>
  Reading the two files, the check of the sample rates and the alignment: the part of
  the \<open>try\<close> body the two scripts share.
\<close>

definition read_pair ::
  "reader \<Rightarrow> string \<Rightarrow> string \<Rightarrow> string \<Rightarrow> string \<Rightarrow> string + (real list \<times> real list \<times> nat)" where
  "read_pair sf_read clean_audio_folder rir_folder_path clean_file degraded_file =
     (case sf_read (path_join clean_audio_folder clean_file) of
        Inl msg \<Rightarrow> Inl msg
      | Inr (clean_signal, fs_clean) \<Rightarrow>
          (case sf_read (path_join rir_folder_path degraded_file) of
             Inl msg \<Rightarrow> Inl msg
           | Inr (degraded_signal, fs_degraded) \<Rightarrow>
               if fs_clean \<noteq> fs_degraded
               then Inl (''Sampling rates do not match for '' @ clean_file @ '' and ''
                          @ degraded_file)
               else Inr (align clean_signal degraded_signal, degraded_signal, fs_clean)))"

text \<open>The two rows a file pair can give.\<close>

definition score_row_of :: "string \<Rightarrow> string \<Rightarrow> 's \<Rightarrow> string \<times> 's entry" where
  "score_row_of rir_subfolder_name degraded_file s =
     (rir_subfolder_name @ ''/'' @ degraded_file, Score s)"

definition error_row_of :: "string \<Rightarrow> string \<Rightarrow> string \<times> 's entry" where
  "error_row_of degraded_file msg = (degraded_file, ErrorText (''Error: '' @ msg))"

text \<open>
  One call of the scorer with the prepared arguments, and the row written for it;
  when the preparation raised, only the error row is written.
\<close>

definition score_and_write ::
  "('w, 's) scorer \<Rightarrow> string \<Rightarrow> string \<Rightarrow> string + ('w list \<times> 'w list \<times> nat) \<Rightarrow>
   ('s, 'w list \<times> 'w list \<times> nat) run_state \<Rightarrow> ('s, 'w list \<times> 'w list \<times> nat) run_state" where
  "score_and_write scorer rir_subfolder_name degraded_file prepared st =
     (case prepared of
        Inl msg \<Rightarrow> st\<lparr>csv := csv st @ [error_row_of degraded_file msg]\<rparr>
      | Inr (c, d, fs) \<Rightarrow>
          (case scorer c d fs of
             Inl msg \<Rightarrow> st\<lparr>csv := csv st @ [error_row_of degraded_file msg],
                             calls := calls st @ [(c, d, fs)]\<rparr>
           | Inr s \<Rightarrow> st\<lparr>csv := csv st @ [score_row_of rir_subfolder_name degraded_file s],
                           calls := calls st @ [(c, d, fs)]\<rparr>))"

subsection \<open>get\_estoi.py\<close>

definition estoi_pair ::
  "reader \<Rightarrow> (real, 's) scorer \<Rightarrow> string \<Rightarrow> string \<Rightarrow> string \<Rightarrow> string \<times> string \<Rightarrow>
   ('s, real list \<times> real list \<times> nat) run_state \<Rightarrow> ('s, real list \<times> real list \<times> nat) run_state" where
  "estoi_pair sf_read stoi rir_folder_path clean_audio_folder rir_subfolder_name pair st =
     score_and_write stoi rir_subfolder_name (snd pair)
       (read_pair sf_read clean_audio_folder rir_folder_path (fst pair) (snd pair)) st"

text \<open>
  \<open>process_rir_folder\<close> of get\_estoi.py: the error raised, if any, and the state it
  leaves.
\<close>

definition process_rir_folder_estoi ::
  "(string \<Rightarrow> string list) \<Rightarrow> reader \<Rightarrow> (real, 's) scorer \<Rightarrow> string \<Rightarrow> string \<Rightarrow> string \<Rightarrow>
   ('s, real list \<times> real list \<times> nat) run_state \<Rightarrow>
   error option \<times> ('s, real list \<times> real list \<times> nat) run_state" where
  "process_rir_folder_estoi listdir sf_read stoi rir_folder_path clean_audio_folder
       rir_subfolder_name st =
     (let clean_files = wav_files listdir clean_audio_folder;
          degraded_files = wav_files listdir rir_folder_path
      in if length clean_files \<noteq> length degraded_files
         then (Some (ValueError (mismatch_message (length clean_files)
                                   (length degraded_files) rir_folder_path)), st)
         else (None, fold (estoi_pair sf_read stoi rir_folder_path clean_audio_folder
                             rir_subfolder_name)
                       (zip clean_files degraded_files) st))"

subsection \<open>get\_siib.py\<close>

text \<open>
  \<open>x / np.max(np.abs(x))\<close>: \<open>np.max\<close> raises on an empty array; when the peak is zero
  every sample is \<open>0 / 0\<close>, which numpy evaluates to NaN with a warning.
\<close>

definition zero_size_message :: string where
  "zero_size_message =
     ''zero-size array to reduction operation maximum which has no identity''"

definition peak_normalize :: "real list \<Rightarrow> string + fval list" where
  "peak_normalize x =
     (if x = [] then Inl zero_size_message
      else let peak = Max (set (map abs x))
           in Inr (map (\<lambda>v. if peak = 0 then NaN else Num (v / peak)) x))"

text \<open>
  \<open>repeat_count = 10 if signal_length_seconds <= 5 else 5\<close> with
  \<open>signal_length_seconds = len(clean_signal) / fs_clean\<close>.
\<close>

definition repeat_count :: "nat \<Rightarrow> nat \<Rightarrow> nat" where
  "repeat_count len fs = (if real len / real fs \<le> 5 then 10 else 5)"

text \<open>\<open>np.tile(x, n)\<close> of a one-dimensional array.\<close>

definition tile :: "'a list \<Rightarrow> nat \<Rightarrow> 'a list" where
  "tile x n = concat (replicate n x)"

text \<open>Normalisation and tiling: the part of the \<open>try\<close> body between alignment and SIIB.\<close>

definition siib_prepare ::
  "string + (real list \<times> real list \<times> nat) \<Rightarrow> string + (fval list \<times> fval list \<times> nat)" where
  "siib_prepare aligned =
     (case aligned of
        Inl msg \<Rightarrow> Inl msg
      | Inr (clean_signal, degraded_signal, fs_clean) \<Rightarrow>
          (case peak_normalize clean_signal of
             Inl msg \<Rightarrow> Inl msg
           | Inr clean_n \<Rightarrow>
               (case peak_normalize degraded_signal of
                  Inl msg \<Rightarrow> Inl msg
                | Inr degraded_n \<Rightarrow>
                    if fs_clean = 0 then Inl ''division by zero''
                    else Inr (tile clean_n (repeat_count (length clean_n) fs_clean),
                              tile degraded_n (repeat_count (length clean_n) fs_clean),
                              fs_clean))))"

definition siib_pair ::
  "reader \<Rightarrow> (fval, 's) scorer \<Rightarrow> string \<Rightarrow> string \<Rightarrow> string \<Rightarrow> string \<times> string \<Rightarrow>
   ('s, fval list \<times> fval list \<times> nat) run_state \<Rightarrow> ('s, fval list \<times> fval list \<times> nat) run_state" where
  "siib_pair sf_read SIIB rir_folder_path clean_audio_folder rir_subfolder_name pair st =
     score_and_write SIIB rir_subfolder_name (snd pair)
       (siib_prepare
          (read_pair sf_read clean_audio_folder rir_folder_path (fst pair) (snd pair))) st"

text \<open>\<open>process_rir_folder\<close> of get\_siib.py.\<close>

definition process_rir_folder_siib ::
  "(string \<Rightarrow> string list) \<Rightarrow> reader \<Rightarrow> (fval, 's) scorer \<Rightarrow> string \<Rightarrow> string \<Rightarrow> string \<Rightarrow>
   ('s, fval list \<times> fval list \<times> nat) run_state \<Rightarrow>
   error option \<times> ('s, fval list \<times> fval list \<times> nat) run_state" where
  "process_rir_folder_siib listdir sf_read SIIB rir_folder_path clean_audio_folder
       rir_subfolder_name st =
     (let clean_files = wav_files listdir clean_audio_folder;
          degraded_files = wav_files listdir rir_folder_path
      in if length clean_files \<noteq> length degraded_files
         then (Some (ValueError (mismatch_message (length clean_files)
                                   (length degraded_files) rir_folder_path)), st)
         else (None, fold (siib_pair sf_read SIIB rir_folder_path clean_audio_folder
                             rir_subfolder_name)
                       (zip clean_files degraded_files) st))"

subsection \<open>process\_t60\_folder\<close>

text \<open>
  The loop over the RIR folders of one T60 folder, for either script: \<open>process\<close> is
  \<open>process_rir_folder\<close> applied to the path and the name of a RIR folder. An error of
  one RIR folder leaves the loop.
\<close>

fun rir_loop ::
  "(string \<Rightarrow> string \<Rightarrow> 'st \<Rightarrow> error option \<times> 'st) \<Rightarrow> string \<Rightarrow> string list \<Rightarrow> 'st \<Rightarrow>
   error option \<times> 'st" where
  "rir_loop process t60_folder_path [] st = (None, st)"
| "rir_loop process t60_folder_path (rir_folder # rest) st =
     (case process (path_join t60_folder_path rir_folder) rir_folder st of
        (Some e, st') \<Rightarrow> (Some e, st')
      | (None, st') \<Rightarrow> rir_loop process t60_folder_path rest st')"

definition process_t60_folder ::
  "(string \<Rightarrow> string list) \<Rightarrow> (string \<Rightarrow> bool) \<Rightarrow>
   (string \<Rightarrow> string \<Rightarrow> 'st \<Rightarrow> error option \<times> 'st) \<Rightarrow> string \<Rightarrow> string \<Rightarrow> 'st \<Rightarrow>
   error option \<times> 'st" where
  "process_t60_folder listdir isdir process degraded_base_folder t60_folder st =
     (let t60_folder_path = path_join degraded_base_folder t60_folder;
          rir_folders = filter (\<lambda>f. isdir (path_join t60_folder_path f)) (listdir t60_folder_path)
      in rir_loop process t60_folder_path rir_folders st)"

section \<open>Concrete inputs\<close>

text \<open>
  Instances of the parameters and small folders on which the functions are evaluated.
  The folders \<open>folder_A\<close> and \<open>folder_B\<close> are the scenario of the specification.
\<close>

definition demo_float :: parser where
  "demo_float = map_of [(''0.50'', 1 / 2), (''1.0'', 1), (''2.0'', 2)]"

definition demo_numeric :: parser where
  "demo_numeric =
     map_of [(''0.8'', 4 / 5), (''0.6'', 3 / 5), (''0.9'', 9 / 10), (''0.5'', 1 / 2)]"

definition demo_pvalue :: "real list \<Rightarrow> real list \<Rightarrow> fval" where
  "demo_pvalue x y = NaN"

definition folder_A :: folder where
  "folder_A =
     [\<lparr>fname = ''0.50_mean_scores.csv'',
       content = Some [\<lparr>rir = ''mic1'', score = ''0.8'', count_col = ''10''\<rparr>,
                       \<lparr>rir = ''mic2'', score = ''0.6'', count_col = ''10''\<rparr>]\<rparr>]"




text \<open>Three recordings, two of them with the same score; one score does not parse.\<close>

definition folder_ties :: folder where
  "folder_ties =
     [\<lparr>fname = ''0.50_mean_scores.csv'',
       content = Some [\<lparr>rir = ''mic1'', score = ''0.5'', count_col = ''10''\<rparr>,
                       \<lparr>rir = ''mic2'', score = ''0.5'', count_col = ''10''\<rparr>,
                       \<lparr>rir = ''mic3'', score = ''0.8'', count_col = ''10''\<rparr>,
                       \<lparr>rir = ''mic4'', score = ''n/a'', count_col = ''10''\<rparr>]\<rparr>,
      \<lparr>fname = ''2.0_mean_scores.csv'',
       content = Some [\<lparr>rir = ''mic1'', score = ''0.9'', count_col = ''10''\<rparr>]\<rparr>]"


text \<open>
  Folders for variance\_test.py, and a stand-in for \<open>levene\<close> that raises on a sample
  with fewer than two values.
\<close>

definition demo_levene :: "real levene_test" where
  "demo_levene scores1 scores2 =
     (if length scores1 < 2 \<or> length scores2 < 2 then None else Some (Num 0, Num 1))"

definition var_folder1 :: "real header_file list" where
  "var_folder1 =
     [\<lparr>fname = ''1.0_mean_scores.csv'', content = Some [(''mean_score'', [1 / 2, 7 / 10])]\<rparr>,
      \<lparr>fname = ''0.50_mean_scores.csv'', content = Some [(''mean_score'', [4 / 5, 3 / 5])]\<rparr>,
      \<lparr>fname = ''notes.txt'', content = None\<rparr>]"

definition var_folder2 :: "real header_file list" where
  "var_folder2 =
     [\<lparr>fname = ''0.50_mean_scores.csv'', content = Some [(''mean_score'', [9 / 10, 1 / 2])]\<rparr>,
      \<lparr>fname = ''2.0_mean_scores.csv'', content = Some [(''mean_score'', [1 / 2, 1 / 2])]\<rparr>]"

definition var_folder3 :: "real header_file list" where
  "var_folder3 =
     [\<lparr>fname = ''2.0_mean_scores.csv'', content = Some [(''mean_score'', [3 / 5, 1 / 2])]\<rparr>]"

text \<open>The T60 values the names of the score files of a folder give.\<close>

definition named_t60s :: "parser \<Rightarrow> 'c dir_entry list \<Rightarrow> real set" where
  "named_t60s pyfloat folder =
     {t. \<exists>f \<in> set folder. endswith (fname f) ''_mean_scores.csv''
           \<and> pyfloat (split_head ''_mean_scores'' (fname f)) = Some t}"

text \<open>
  A small file system for the batch scorers. The clean folder \<open>clean\<close> holds one
  recording and the T60 folder \<open>degraded/0.5\<close> three RIR folders; the clean folder
  \<open>clean3\<close> holds three recordings and the RIR folder \<open>degraded/0.5/rir9\<close> two, the
  scenario of the specification. The scorers are stand-ins.
\<close>

definition demo_listdir :: "string \<Rightarrow> string list" where
  "demo_listdir dir =
     (case map_of
        [(''clean'', [''s1.wav'', ''notes.txt'']),
         (''degraded/0.5'', [''rir1'', ''rir2'', ''rir3'', ''readme.md'']),
         (''degraded/0.5/rir1'', [''s1.wav'']),
         (''degraded/0.5/rir2'', [''s1.wav'']),
         (''degraded/0.5/rir3'', [''s1.wav'']),
         (''clean3'', [''a.wav'', ''b.wav'', ''c.wav'']),
         (''degraded/0.5/rir9'', [''a.wav'', ''b.wav''])] dir of
        None \<Rightarrow> [] | Some names \<Rightarrow> names)"

definition demo_isdir :: "string \<Rightarrow> bool" where
  "demo_isdir path \<longleftrightarrow>
     path \<in> set [''degraded/0.5/rir1'', ''degraded/0.5/rir2'', ''degraded/0.5/rir3'']"

definition demo_read :: reader where
  "demo_read path =
     (case map_of
        [(''clean/s1.wav'', ([1 / 2, - 1], 8)),
         (''degraded/0.5/rir1/s1.wav'', ([1, 1 / 2, 1 / 4], 8)),
         (''degraded/0.5/rir2/s1.wav'', ([1, 1 / 2], 16))] path of
        None \<Rightarrow> Inl ''Error opening file'' | Some w \<Rightarrow> Inr w)"

definition demo_stoi :: "(real, real) scorer" where
  "demo_stoi c d fs = Inr (1 / 2)"

definition demo_SIIB :: "(fval, real) scorer" where
  "demo_SIIB c d fs = Inr 100"

text \<open>The states before the first row: an empty output file and no call yet.\<close>

definition estoi_start :: "(real, real list \<times> real list \<times> nat) run_state" where
  "estoi_start = \<lparr>csv = [], calls = []\<rparr>"

definition siib_start :: "(real, fval list \<times> fval list \<times> nat) run_state" where
  "siib_start = \<lparr>csv = [], calls = []\<rparr>"





section \<open>Properties of load\_scores\<close>

lemma coerce_rows_eq:
  "coerce_rows tn t rs =
     map (\<lambda>r. (t, rir r, the (tn (score r)))) (filter (\<lambda>r. tn (score r) \<noteq> None) rs)"
  by (induction rs) (auto split: option.splits)

lemma coerce_rows_length: "length (coerce_rows tn t rs) \<le> length rs"
  by (induction rs) (auto split: option.splits)

lemma load_loop_acc:
  "load_loop pf tn rng fs acc = acc @ load_loop pf tn rng fs []"
proof (induction fs arbitrary: acc)
  case Nil
  show ?case by simp
next
  case (Cons f fs)
  show ?case
  proof (cases "load_file pf tn rng f")
    case None
    then show ?thesis using Cons.IH [of acc] by simp
  next
    case (Some df)
    then show ?thesis using Cons.IH [of "acc @ [df]"] Cons.IH [of "[df]"] by simp
  qed
qed

lemma load_loop_Cons:
  "load_loop pf tn rng (f # fs) [] =
     (case load_file pf tn rng f of None \<Rightarrow> [] | Some df \<Rightarrow> [df]) @ load_loop pf tn rng fs []"
proof (cases "load_file pf tn rng f")
  case None
  then show ?thesis by simp
next
  case (Some df)
  then show ?thesis using load_loop_acc [of pf tn rng fs "[df]"] by simp
qed

declare load_loop.simps(2) [simp del]

lemma in_range_outside: "in_range rng t \<longleftrightarrow> \<not> outside_range rng t"
  by (simp add: in_range_def outside_range_def split: option.splits)

lemma load_loop_well_formed:
  "well_formed pf fs \<Longrightarrow>
   concat (load_loop pf tn rng fs []) = spec_rows pf tn fs rng"
proof (induction fs)
  case Nil
  show ?case by (simp add: spec_rows_def)
next
  case (Cons f fs)
  from Cons.prems have wf: "well_formed pf fs"
    and p: "pf (split_head ''_mean_scores'' (fname f)) \<noteq> None"
    and c: "content f \<noteq> None"
    by (simp_all add: well_formed_def)
  from p obtain t where t: "pf (split_head ''_mean_scores'' (fname f)) = Some t" by blast
  from c obtain df where df: "content f = Some df" by blast
  have ft: "file_t60 pf f = t" by (simp add: file_t60_def t)
  have tail: "concat (load_loop pf tn rng fs []) = spec_rows pf tn fs rng"
    using Cons.IH [OF wf] .
  show ?case
  proof (cases "outside_range rng t")
    case True
    then have "load_file pf tn rng f = None" by (simp add: load_file_def t)
    moreover have "spec_rows pf tn (f # fs) rng = spec_rows pf tn fs rng"
      using True by (simp add: spec_rows_def ft in_range_outside)
    ultimately show ?thesis using tail by (simp add: load_loop_Cons)
  next
    case False
    then have "load_file pf tn rng f = Some (coerce_rows tn t df)"
      by (simp add: load_file_def t df)
    moreover have "spec_rows pf tn (f # fs) rng =
        coerce_rows tn t df @ spec_rows pf tn fs rng"
      using False by (simp add: spec_rows_def ft in_range_outside df coerce_rows_eq)
    ultimately show ?thesis using tail by (simp add: load_loop_Cons)
  qed
qed

lemma filter_well_formed:
  "well_formed pf folder \<Longrightarrow>
   filter (\<lambda>f. endswith (fname f) ''_mean_scores.csv'') folder = folder"
  by (induction folder) (simp_all add: well_formed_def)

lemma load_loop_rows_le:
  "length (concat (load_loop pf tn rng fs [])) \<le> total_rows fs"
proof (induction fs)
  case Nil
  show ?case by (simp add: total_rows_def)
next
  case (Cons f fs)
  have "length (concat (case load_file pf tn rng f of None \<Rightarrow> [] | Some df \<Rightarrow> [df]))
          \<le> (case content f of None \<Rightarrow> 0 | Some df \<Rightarrow> length df)"
    by (auto simp: load_file_def coerce_rows_length split: option.splits)
  then show ?case using Cons.IH by (simp add: load_loop_Cons total_rows_def)
qed

lemma frame_rows_load_scores:
  "frame_rows (load_scores pf tn folder rng) =
     concat (load_loop pf tn rng (filter (\<lambda>f. endswith (fname f) ''_mean_scores.csv'') folder) [])"
  by (simp add: load_scores_def Let_def)

lemma spec_rows_none_qualify:
  "list_all (\<lambda>f. \<not> in_range rng (file_t60 pf f)) folder \<Longrightarrow> spec_rows pf tn folder rng = []"
  by (induction folder) (simp_all add: spec_rows_def)

text \<open>
  Claim C3. For a folder of well-formed \<open><t60>_mean_scores.csv\<close> files, \<open>load_scores\<close>
  returns exactly the rows of the files whose t60 lies in \<open>[lo, hi]\<close> (of all files when
  no range is given) whose score coerces to a number; it returns at most as many rows as
  the files hold; and when no file qualifies the table it returns has no rows
  (\<open>load_scores\<close> has no error result: every exception is caught inside its loop).
\<close>

theorem load_scores_exact:
  assumes "well_formed pyfloat folder"
  shows "frame_rows (load_scores pyfloat to_numeric folder t60_range)
           = spec_rows pyfloat to_numeric folder t60_range
       \<and> length (frame_rows (load_scores pyfloat to_numeric folder t60_range))
           \<le> total_rows folder
       \<and> (list_all (\<lambda>f. \<not> in_range t60_range (file_t60 pyfloat f)) folder \<longrightarrow>
            load_scores pyfloat to_numeric folder t60_range = EmptyDataFrame
          \<and> frame_rows (load_scores pyfloat to_numeric folder t60_range) = [])"
proof -
  let ?res = "load_scores pyfloat to_numeric folder t60_range"
  have flt: "filter (\<lambda>f. endswith (fname f) ''_mean_scores.csv'') folder = folder"
    using assms by (rule filter_well_formed)
  have rows: "frame_rows ?res = spec_rows pyfloat to_numeric folder t60_range"
    using load_loop_well_formed [OF assms] by (simp add: frame_rows_load_scores flt)
  have le: "length (frame_rows ?res) \<le> total_rows folder"
    using load_loop_rows_le [of pyfloat to_numeric t60_range folder]
    by (simp add: frame_rows_load_scores flt)
  have none: "?res = EmptyDataFrame \<and> frame_rows ?res = []"
    if nq: "list_all (\<lambda>f. \<not> in_range t60_range (file_t60 pyfloat f)) folder"
  proof -
    have "load_loop pyfloat to_numeric t60_range folder [] = []"
      using nq assms
    proof (induction folder)
      case Nil
      show ?case by simp
    next
      case (Cons f fs)
      from Cons.prems have "pyfloat (split_head ''_mean_scores'' (fname f)) \<noteq> None"
        by (simp add: well_formed_def)
      then obtain t where t: "pyfloat (split_head ''_mean_scores'' (fname f)) = Some t"
        by blast
      from Cons.prems have "\<not> in_range t60_range (file_t60 pyfloat f)" by simp
      then have "outside_range t60_range t" by (simp add: in_range_outside file_t60_def t)
      then have "load_file pyfloat to_numeric t60_range f = None"
        by (simp add: load_file_def t)
      moreover have "load_loop pyfloat to_numeric t60_range fs [] = []"
        using Cons.IH Cons.prems by (simp add: well_formed_def)
      ultimately show ?case by (simp add: load_loop_Cons)
    qed
    then show ?thesis by (simp add: load_scores_def flt)
  qed
  from rows le none show ?thesis by blast
qed

theorem load_scores_exact_witness:
  "well_formed demo_float folder_ties
   \<and> frame_rows (load_scores demo_float demo_numeric folder_ties (Some (0, 1)))
       = [(1 / 2, ''mic1'', 1 / 2), (1 / 2, ''mic2'', 1 / 2), (1 / 2, ''mic3'', 4 / 5)]
   \<and> length (frame_rows (load_scores demo_float demo_numeric folder_ties (Some (0, 1)))) \<le> 5"
proof -
  have wf: "well_formed demo_float folder_ties"
    by (simp add: well_formed_def endswith_def folder_ties_def demo_float_def
          del: not_None_eq)
  have rows: "spec_rows demo_float demo_numeric folder_ties (Some (0, 1))
      = [(1 / 2, ''mic1'', 1 / 2), (1 / 2, ''mic2'', 1 / 2), (1 / 2, ''mic3'', 4 / 5)]"
    by (simp add: spec_rows_def file_t60_def in_range_def folder_ties_def demo_float_def
          demo_numeric_def del: not_None_eq)
  have total: "total_rows folder_ties = 5"
    by (simp add: total_rows_def folder_ties_def)
  from load_scores_exact [OF wf, of demo_numeric "Some (0, 1)"] wf rows total
  show ?thesis by simp
qed

section \<open>Properties of calculate\_folders\_metrics: failures\<close>


lemma merge_no_columns:
  "s1 = EmptyDataFrame \<or> s2 = EmptyDataFrame \<Longrightarrow> merge s1 s2 = Inl (KeyError ''t60'')"
  by (cases s1; cases s2) auto






text \<open>The four ways \<open>calculate_folders_metrics\<close> can end.\<close>

lemma calculate_no_columns:
  assumes "load_scores pf tn f1 rng = EmptyDataFrame \<or> load_scores pf tn f2 rng = EmptyDataFrame"
  shows "calculate_folders_metrics pf tn pv f1 f2 rng = Inl (KeyError ''t60'')"
  using merge_no_columns [OF assms]
  by (simp add: calculate_folders_metrics_def Let_def)












lemma load_no_files: "load_scores pf tn [] rng = EmptyDataFrame"
  by (simp add: load_scores_def)




text \<open>
  A folder without score files gives \<open>pd.DataFrame()\<close>, and the merge raises \<open>KeyError\<close>
  before the emptiness of the join is looked at.
\<close>

lemma calculate_no_files:
  "calculate_folders_metrics demo_float demo_numeric demo_pvalue [] folder_A None
     = Inl (KeyError ''t60'')"
  by (rule calculate_no_columns) (simp add: load_no_files)







section \<open>Properties of levene\_test\_between\_folders\<close>

lemma keys_update: "set (map fst (AList.update k v al)) = insert k (set (map fst al))"
  by (induction al) auto

lemma named_t60s_Cons:
  "named_t60s pf (f # fs) =
     (if endswith (fname f) ''_mean_scores.csv''
      then (case pf (split_head ''_mean_scores'' (fname f)) of
              None \<Rightarrow> named_t60s pf fs | Some t \<Rightarrow> insert t (named_t60s pf fs))
      else named_t60s pf fs)"
  by (auto simp: named_t60s_def split: option.splits)

lemma get_t60_data_loop_keys:
  "set (map fst (get_t60_data_loop pf fs d)) \<subseteq> set (map fst d) \<union> named_t60s pf fs"
proof (induction fs arbitrary: d)
  case Nil
  show ?case by simp
next
  case (Cons f fs)
  show ?case
  proof (cases "endswith (fname f) ''_mean_scores.csv''")
    case False
    then show ?thesis using Cons.IH [of d] by (simp add: named_t60s_Cons)
  next
    case True
    show ?thesis
    proof (cases "pf (split_head ''_mean_scores'' (fname f))")
      case None
      with True show ?thesis using Cons.IH [of d] by (simp add: named_t60s_Cons)
    next
      case (Some t)
      show ?thesis
      proof (cases "content f")
        case None
        with True Some show ?thesis using Cons.IH [of d]
          by (auto simp: named_t60s_Cons)
      next
        case df: (Some df)
        show ?thesis
        proof (cases "map_of df ''mean_score''")
          case None
          with True Some df show ?thesis using Cons.IH [of d]
            by (auto simp: named_t60s_Cons)
        next
          case sc: (Some scores)
          have "set (map fst (get_t60_data_loop pf fs (AList.update t scores d)))
              \<subseteq> insert t (set (map fst d)) \<union> named_t60s pf fs"
            using Cons.IH [of "AList.update t scores d"] by (simp only: keys_update)
          with True Some df sc show ?thesis
            by (auto simp: named_t60s_Cons)
        qed
      qed
    qed
  qed
qed

lemma get_t60_data_keys:
  "set (map fst (get_t60_data pf folder)) \<subseteq> named_t60s pf folder"
  using get_t60_data_loop_keys [of pf folder "[]"] by (simp add: get_t60_data_def)

lemma set_common_t60s:
  "set (common_t60s d1 d2) = set (map fst d1) \<inter> set (map fst d2)"
  by (simp add: common_t60s_def)

lemma sorted_common_t60s: "sorted (common_t60s d1 d2) \<and> distinct (common_t60s d1 d2)"
  by (simp add: common_t60s_def)

lemma common_t60s_code:
  "common_t60s d1 d2 = sort (remdups (filter (\<lambda>t. t \<in> set (map fst d2)) (map fst d1)))"
proof -
  have "set (map fst d1) \<inter> set (map fst d2)
      = set (filter (\<lambda>t. t \<in> set (map fst d2)) (map fst d1))"
    by auto
  then show ?thesis
    unfolding common_t60s_def by (simp only: sorted_list_of_set_sort_remdups)
qed

text \<open>
  On keys that both dictionaries hold the loop never raises; it appends one row for
  each T60 on which \<open>levene\<close> returns, in the order of the keys.
\<close>

lemma levene_loop_rows:
  assumes "\<forall>t \<in> set ts. map_of d1 t \<noteq> None \<and> map_of d2 t \<noteq> None"
  shows "\<exists>res. levene_loop lev d1 d2 ts acc = Inr res
           \<and> map fst res = map fst acc
               @ filter (\<lambda>t. lev (the (map_of d1 t)) (the (map_of d2 t)) \<noteq> None) ts"
  using assms
proof (induction ts arbitrary: acc)
  case Nil
  show ?case by simp
next
  case (Cons t ts)
  from Cons.prems obtain s1 s2 where s: "map_of d1 t = Some s1" "map_of d2 t = Some s2"
    by auto
  from Cons.prems have rest: "\<forall>t \<in> set ts. map_of d1 t \<noteq> None \<and> map_of d2 t \<noteq> None"
    by simp
  show ?case
  proof (cases "lev s1 s2")
    case None
    with s Cons.IH [OF rest, of acc] show ?thesis by simp
  next
    case (Some r)
    obtain stat p where r: "r = (stat, p)" by (cases r)
    from s Some r Cons.IH [OF rest, of "acc @ [(t, stat, p)]"] show ?thesis by simp
  qed
qed

lemma common_keys_present:
  "\<forall>t \<in> set (common_t60s d1 d2). map_of d1 t \<noteq> None \<and> map_of d2 t \<noteq> None"
  by (auto simp: set_common_t60s map_of_eq_None_iff)

lemma levene_results:
  "\<exists>res. levene_loop lev d1 d2 (common_t60s d1 d2) [] = Inr res
     \<and> map fst res
         = filter (\<lambda>t. lev (the (map_of d1 t)) (the (map_of d2 t)) \<noteq> None) (common_t60s d1 d2)"
  using levene_loop_rows [OF common_keys_present, of lev d1 d2 "[]"] by simp

lemma levene_written_table:
  assumes "levene_test_between_folders pf lev f1 f2 = Inr table"
  shows "map fst table
           = filter (\<lambda>t. lev (the (map_of (get_t60_data pf f1) t))
                            (the (map_of (get_t60_data pf f2) t)) \<noteq> None)
               (common_t60s (get_t60_data pf f1) (get_t60_data pf f2))"
proof -
  let ?d1 = "get_t60_data pf f1" and ?d2 = "get_t60_data pf f2"
  let ?ok = "\<lambda>t. lev (the (map_of ?d1 t)) (the (map_of ?d2 t)) \<noteq> None"
  obtain res where res: "levene_loop lev ?d1 ?d2 (common_t60s ?d1 ?d2) [] = Inr res"
    and keys: "map fst res = filter ?ok (common_t60s ?d1 ?d2)"
    using levene_results [of lev ?d1 ?d2] by blast
  have "sorted (map fst res)"
    using sorted_common_t60s [of ?d1 ?d2] by (simp add: keys sorted_wrt_filter)
  then have "sort_key fst res = res" by (rule sort_key_id_if_sorted)
  with assms res have "table = res"
    by (simp add: levene_test_between_folders_def Let_def split: if_splits)
  with keys show ?thesis by simp
qed

text \<open>
  Claim C6. The table \<open>levene_test_between_folders\<close> writes has rows only for T60
  values that both folders hold (keys of both dictionaries, hence T60 values named by
  score files of both folders), at most one row for each, in ascending order of T60.
\<close>

theorem levene_rows_common_sorted:
  assumes "levene_test_between_folders pyfloat levene folder1 folder2 = Inr table"
  shows "set (map fst table)
           \<subseteq> set (map fst (get_t60_data pyfloat folder1))
               \<inter> set (map fst (get_t60_data pyfloat folder2))
       \<and> set (map fst table) \<subseteq> named_t60s pyfloat folder1 \<inter> named_t60s pyfloat folder2
       \<and> sorted (map fst table) \<and> distinct (map fst table)"
proof -
  let ?d1 = "get_t60_data pyfloat folder1" and ?d2 = "get_t60_data pyfloat folder2"
  note keys = levene_written_table [OF assms]
  have sub: "set (map fst table) \<subseteq> set (map fst ?d1) \<inter> set (map fst ?d2)"
    unfolding keys using set_common_t60s [of ?d1 ?d2] by auto
  moreover have "set (map fst ?d1) \<inter> set (map fst ?d2)
      \<subseteq> named_t60s pyfloat folder1 \<inter> named_t60s pyfloat folder2"
    using get_t60_data_keys [of pyfloat folder1] get_t60_data_keys [of pyfloat folder2]
    by blast
  moreover have "sorted (map fst table)" "distinct (map fst table)"
    unfolding keys using sorted_common_t60s [of ?d1 ?d2] by (simp_all add: sorted_wrt_filter)
  ultimately show ?thesis by blast
qed

lemma get_var_folder1:
  "get_t60_data demo_float var_folder1 = [(1, [1 / 2, 7 / 10]), (1 / 2, [4 / 5, 3 / 5])]"
  by (simp add: get_t60_data_def var_folder1_def endswith_def demo_float_def)

lemma get_var_folder2:
  "get_t60_data demo_float var_folder2 = [(1 / 2, [9 / 10, 1 / 2]), (2, [1 / 2, 1 / 2])]"
  by (simp add: get_t60_data_def var_folder2_def endswith_def demo_float_def)

lemma get_var_folder3:
  "get_t60_data demo_float var_folder3 = [(2, [3 / 5, 1 / 2])]"
  by (simp add: get_t60_data_def var_folder3_def endswith_def demo_float_def)

lemma levene_var_folders:
  "levene_test_between_folders demo_float demo_levene var_folder1 var_folder2
     = Inr [(1 / 2, Num 0, Num 1)]"
  by (simp add: levene_test_between_folders_def get_var_folder1 get_var_folder2
        common_t60s_code demo_levene_def)

theorem levene_rows_common_sorted_witness:
  "levene_test_between_folders demo_float demo_levene var_folder1 var_folder2
     = Inr [(1 / 2, Num 0, Num 1)]
   \<and> set (map fst [(1 / 2 :: real, Num 0, Num 1)])
       \<subseteq> named_t60s demo_float var_folder1 \<inter> named_t60s demo_float var_folder2"
  using levene_rows_common_sorted [OF levene_var_folders] levene_var_folders by simp

text \<open>
  Claim C7 at a failing input: \<open>var_folder1\<close> and \<open>var_folder3\<close> have no T60 in common,
  so \<open>results\<close> stays empty, \<open>sort_values(by="T60")\<close> raises \<open>KeyError\<close> and no table
  is written.
\<close>

theorem levene_no_common_t60_aborts:
  "levene_test_between_folders demo_float demo_levene var_folder1 var_folder3
     = Inl (KeyError ''T60'')"
  by (simp add: levene_test_between_folders_def get_var_folder1 get_var_folder3
        common_t60s_code)

text \<open>
  The same holds in general: whenever \<open>levene\<close> returns on no common T60 (there is
  none, or it raises on each), the function ends with the \<open>KeyError\<close>; otherwise it
  writes the table.
\<close>

lemma levene_aborts_iff:
  "levene_test_between_folders pf lev f1 f2 = Inl (KeyError ''T60'')
   \<longleftrightarrow> (\<forall>t \<in> set (common_t60s (get_t60_data pf f1) (get_t60_data pf f2)).
          lev (the (map_of (get_t60_data pf f1) t)) (the (map_of (get_t60_data pf f2) t)) = None)"
proof -
  let ?d1 = "get_t60_data pf f1" and ?d2 = "get_t60_data pf f2"
  let ?ok = "\<lambda>t. lev (the (map_of ?d1 t)) (the (map_of ?d2 t)) \<noteq> None"
  obtain res where res: "levene_loop lev ?d1 ?d2 (common_t60s ?d1 ?d2) [] = Inr res"
    and keys: "map fst res = filter ?ok (common_t60s ?d1 ?d2)"
    using levene_results [of lev ?d1 ?d2] by blast
  have "res = [] \<longleftrightarrow> filter ?ok (common_t60s ?d1 ?d2) = []"
    using keys by (metis map_is_Nil_conv)
  also have "\<dots> \<longleftrightarrow> (\<forall>t \<in> set (common_t60s ?d1 ?d2).
      lev (the (map_of ?d1 t)) (the (map_of ?d2 t)) = None)"
    unfolding filter_empty_conv by (simp only: not_not)
  finally have iff: "res = [] \<longleftrightarrow> (\<forall>t \<in> set (common_t60s ?d1 ?d2).
      lev (the (map_of ?d1 t)) (the (map_of ?d2 t)) = None)" .
  have "levene_test_between_folders pf lev f1 f2 = Inl (KeyError ''T60'') \<longleftrightarrow> res = []"
    using res by (simp add: levene_test_between_folders_def Let_def)
  with iff show ?thesis by (simp only:)
qed

section \<open>Properties of the batch scorers\<close>

declare str_nat.simps [simp del]

lemma length_wav_files:
  "length (wav_files listdir dir) = length (filter (\<lambda>f. endswith f ''.wav'') (listdir dir))"
  by (simp add: wav_files_def)

lemma rir_loop_stops:
  "process (path_join t60_folder_path rir_folder) rir_folder st = (Some e, st') \<Longrightarrow>
   rir_loop process t60_folder_path (rir_folder # rest) st = (Some e, st')"
  by simp

text \<open>
  Claim C8. When the number of clean \<open>.wav\<close> files differs from the number of degraded
  \<open>.wav\<close> files of a RIR folder, \<open>process_rir_folder\<close> of either script raises the
  mismatch error and leaves the state as it found it: no row has been written and the
  scorer has not been called.
\<close>

theorem count_mismatch_raises_first:
  assumes "length (filter (\<lambda>f. endswith f ''.wav'') (listdir clean_audio_folder))
             \<noteq> length (filter (\<lambda>f. endswith f ''.wav'') (listdir rir_folder_path))"
  shows "process_rir_folder_estoi listdir sf_read stoi rir_folder_path clean_audio_folder
             rir_subfolder_name st
           = (Some (ValueError (mismatch_message
                 (length (filter (\<lambda>f. endswith f ''.wav'') (listdir clean_audio_folder)))
                 (length (filter (\<lambda>f. endswith f ''.wav'') (listdir rir_folder_path)))
                 rir_folder_path)), st)
       \<and> process_rir_folder_siib listdir sf_read SIIB rir_folder_path clean_audio_folder
             rir_subfolder_name st2
           = (Some (ValueError (mismatch_message
                 (length (filter (\<lambda>f. endswith f ''.wav'') (listdir clean_audio_folder)))
                 (length (filter (\<lambda>f. endswith f ''.wav'') (listdir rir_folder_path)))
                 rir_folder_path)), st2)"
  using assms
  by (simp add: process_rir_folder_estoi_def process_rir_folder_siib_def Let_def
        length_wav_files)

lemma demo_counts:
  "length (filter (\<lambda>f. endswith f ''.wav'') (demo_listdir ''clean3'')) = 3"
  "length (filter (\<lambda>f. endswith f ''.wav'') (demo_listdir ''degraded/0.5/rir9'')) = 2"
  by (simp_all add: demo_listdir_def endswith_def)

lemma demo_mismatch_message:
  "mismatch_message 3 2 ''degraded/0.5/rir9''
     = ''Mismatch: 3 clean files vs 2 degraded files in degraded/0.5/rir9''"
  by (simp add: mismatch_message_def str_nat.simps [of 3] str_nat.simps [of 2])

theorem count_mismatch_raises_first_witness:
  "process_rir_folder_estoi demo_listdir demo_read demo_stoi ''degraded/0.5/rir9'' ''clean3''
       ''rir9'' estoi_start
     = (Some (ValueError ''Mismatch: 3 clean files vs 2 degraded files in degraded/0.5/rir9''),
        estoi_start)
   \<and> process_rir_folder_siib demo_listdir demo_read demo_SIIB ''degraded/0.5/rir9'' ''clean3''
       ''rir9'' siib_start
     = (Some (ValueError ''Mismatch: 3 clean files vs 2 degraded files in degraded/0.5/rir9''),
        siib_start)"
  using count_mismatch_raises_first [of demo_listdir "''clean3''" "''degraded/0.5/rir9''"
      demo_read demo_stoi "''rir9''" estoi_start demo_SIIB siib_start]
  by (simp add: demo_counts demo_mismatch_message)

subsection \<open>The rows written and the calls made for the file pairs\<close>









text \<open>Evaluation on the small file system.\<close>

lemma demo_wav_files:
  "wav_files demo_listdir ''clean'' = [''s1.wav'']"
  "wav_files demo_listdir ''degraded/0.5/rir1'' = [''s1.wav'']"
  "wav_files demo_listdir ''degraded/0.5/rir2'' = [''s1.wav'']"
  "wav_files demo_listdir ''degraded/0.5/rir3'' = [''s1.wav'']"
  by (simp_all add: wav_files_def demo_listdir_def endswith_def)

lemma demo_read_pair_rir1:
  "read_pair demo_read ''clean'' ''degraded/0.5/rir1'' ''s1.wav'' ''s1.wav''
     = Inr ([1 / 2, - 1, 0], [1, 1 / 2, 1 / 4], 8)"
  by (simp add: read_pair_def demo_read_def path_join_def align_def)

lemma demo_read_pair_rir2:
  "read_pair demo_read ''clean'' ''degraded/0.5/rir2'' ''s1.wav'' ''s1.wav''
     = Inl ''Sampling rates do not match for s1.wav and s1.wav''"
  by (simp add: read_pair_def demo_read_def path_join_def)

lemma demo_read_pair_rir3:
  "read_pair demo_read ''clean'' ''degraded/0.5/rir3'' ''s1.wav'' ''s1.wav''
     = Inl ''Error opening file''"
  by (simp add: read_pair_def demo_read_def path_join_def)






lemma demo_estoi_rir1:
  "process_rir_folder_estoi demo_listdir demo_read demo_stoi ''degraded/0.5/rir1'' ''clean''
       ''rir1'' st
     = (None, st\<lparr>csv := csv st @ [(''rir1/s1.wav'', Score (1 / 2))],
                  calls := calls st @ [([1 / 2, - 1, 0], [1, 1 / 2, 1 / 4], 8)]\<rparr>)"
  by (simp add: process_rir_folder_estoi_def demo_wav_files estoi_pair_def
        demo_read_pair_rir1 score_and_write_def demo_stoi_def score_row_of_def)

lemma demo_estoi_rir2:
  "process_rir_folder_estoi demo_listdir demo_read demo_stoi ''degraded/0.5/rir2'' ''clean''
       ''rir2'' st
     = (None, st\<lparr>csv := csv st @ [(''s1.wav'',
          ErrorText ''Error: Sampling rates do not match for s1.wav and s1.wav'')]\<rparr>)"
  by (simp add: process_rir_folder_estoi_def demo_wav_files estoi_pair_def
        demo_read_pair_rir2 score_and_write_def error_row_of_def)

lemma demo_estoi_rir3:
  "process_rir_folder_estoi demo_listdir demo_read demo_stoi ''degraded/0.5/rir3'' ''clean''
       ''rir3'' st
     = (None, st\<lparr>csv := csv st @ [(''s1.wav'', ErrorText ''Error: Error opening file'')]\<rparr>)"
  by (simp add: process_rir_folder_estoi_def demo_wav_files estoi_pair_def
        demo_read_pair_rir3 score_and_write_def error_row_of_def)

lemma demo_rir_folders:
  "filter (\<lambda>f. demo_isdir (path_join ''degraded/0.5'' f)) (demo_listdir ''degraded/0.5'')
     = [''rir1'', ''rir2'', ''rir3'']"
  by (simp add: demo_listdir_def demo_isdir_def path_join_def)

text \<open>
  One T60 folder with get\_estoi.py: the pair of \<open>rir1\<close> is scored, the pairs of
  \<open>rir2\<close> and \<open>rir3\<close> fail, and their two rows have the same record name.
\<close>

lemma demo_estoi_t60_folder:
  "process_t60_folder demo_listdir demo_isdir
       (\<lambda>rir_folder_path. process_rir_folder_estoi demo_listdir demo_read demo_stoi
          rir_folder_path ''clean'')
       ''degraded'' ''0.5'' estoi_start
     = (None,
        \<lparr>csv = [(''rir1/s1.wav'', Score (1 / 2)),
                (''s1.wav'', ErrorText ''Error: Sampling rates do not match for s1.wav and s1.wav''),
                (''s1.wav'', ErrorText ''Error: Error opening file'')],
         calls = [([1 / 2, - 1, 0], [1, 1 / 2, 1 / 4], 8)]\<rparr>)"
proof -
  have p: "path_join ''degraded'' ''0.5'' = ''degraded/0.5''"
    "path_join ''degraded/0.5'' ''rir1'' = ''degraded/0.5/rir1''"
    "path_join ''degraded/0.5'' ''rir2'' = ''degraded/0.5/rir2''"
    "path_join ''degraded/0.5'' ''rir3'' = ''degraded/0.5/rir3''"
    by (simp_all add: path_join_def)
  show ?thesis
    unfolding process_t60_folder_def Let_def p(1) demo_rir_folders
    by (simp add: p demo_estoi_rir1 demo_estoi_rir2 demo_estoi_rir3 estoi_start_def)
qed



section \<open>Properties of calculate\_folders\_metrics: the statistics\<close>


subsection \<open>A table joined with itself\<close>




subsection \<open>The statistics of a vector with itself\<close>

















section \<open>Properties of calculate\_folders\_metrics: swapping the folders\<close>

subsection \<open>The join of the swapped tables\<close>







subsection \<open>count\_pairs does not depend on the order\<close>









subsection \<open>The statistics of the swapped vectors\<close>

















end
